theory Spec2Isabelle
  imports Complex_Main
begin

section \<open>CardioCare risk scorer: data model\<close>

text \<open>
  The scorers of this repository work on Python floats. Here a float is a \<^typ>\<open>real\<close>:
  every constant of the source is the decimal fraction it is written as, and addition,
  multiplication, division and comparison are exact. Python's unbounded \<^verbatim>\<open>int\<close> is
  \<^typ>\<open>int\<close>, a \<^verbatim>\<open>str\<close> is the \<^typ>\<open>string\<close> of its UTF-8 bytes (so an accented letter
  is two \<^typ>\<open>char\<close>s), and an exception is a value of \<open>py_error\<close> on the left of a sum.
\<close>

datatype py_error = ZeroDivisionError | KeyError

text \<open>A value stored in a dynamically typed \<^verbatim>\<open>dict\<close>: text or a number.\<close>

datatype py_valor = Texto string | Numero real

text \<open>
  The dictionary \<^verbatim>\<open>st.session_state.paciente_data\<close> of \<^verbatim>\<open>src/dashboard_medico.py\<close>, key
  by key. The values of the number widgets are Python numbers that the dashboard only
  compares and subtracts, so they are reals; the four symptoms are stored as
  \<^verbatim>\<open>int(flag)\<close>.
\<close>

record paciente_data =
  idade :: int
  genero :: string
  tipo_sanguineo :: string
  pressao_sistolica :: real
  pressao_diastolica :: real
  freq_cardiaca :: real
  bmi :: real
  colesterol :: real
  glicose :: real
  num_medicamentos :: int
  visitas_anuais :: int
  dor_peito :: int
  falta_ar :: int
  fadiga :: int
  tontura :: int

text \<open>The dictionary that \<^verbatim>\<open>calcular_risco_simulado\<close> returns.\<close>

record resultado_simulado =
  categoria :: string
  probabilidade :: real
  score :: real
  cor :: string

text \<open>
  An entry of the list that \<^verbatim>\<open>gerar_explicacoes_shap_simuladas\<close> of the dashboard builds:
  a dictionary with four keys, whose \<^verbatim>\<open>valor\<close> is a number or the text \<^verbatim>\<open>Sim\<close>.
\<close>

record explicacao_simulada =
  fator :: string
  valor :: py_valor
  impacto :: real
  interpretacao :: string

text \<open>\<^verbatim>\<open>class PacienteInput(BaseModel)\<close> of the four API files, field by field.\<close>

record PacienteInput =
  idade :: int
  genero :: string
  tipo_sanguineo :: string
  pressao_sistolica :: real
  pressao_diastolica :: real
  freq_cardiaca :: real
  peso :: real
  altura :: real
  colesterol :: real
  glicose :: real
  num_medicamentos :: int
  visitas_anuais :: int
  dor_peito :: bool
  falta_ar :: bool
  fadiga :: bool
  tontura :: bool

text \<open>\<^verbatim>\<open>class ExplicacaoSHAP(BaseModel)\<close> and \<^verbatim>\<open>class ExplicacoesResponse(BaseModel)\<close>.\<close>

record ExplicacaoSHAP =
  fator :: string
  valor :: real
  impacto :: real
  interpretacao :: string
  categoria :: string

record ExplicacoesResponse =
  fatores_risco :: "ExplicacaoSHAP list"
  fatores_protecao :: "ExplicacaoSHAP list"
  interpretacao_geral :: string
  recomendacoes :: "string list"

text \<open>
  The validator \<^verbatim>\<open>validar_pressao_diastolica\<close>: it raises when the diastolic value is
  not below the systolic one, so it accepts exactly when \<open>v < sistolica\<close>.
\<close>

definition validar_pressao_diastolica :: "real \<Rightarrow> real \<Rightarrow> bool" where
  "validar_pressao_diastolica v sistolica \<longleftrightarrow> \<not> (v \<ge> sistolica)"

text \<open>
  A record that the model class accepts: every \<^verbatim>\<open>Field(..., ge=a, le=b)\<close> bound, both
  \<^verbatim>\<open>pattern\<close>s, and the validator. The four API files declare the same bounds.
\<close>

definition paciente_valido :: "PacienteInput \<Rightarrow> bool" where
  "paciente_valido d \<longleftrightarrow>
     18 \<le> idade d \<and> idade d \<le> 120 \<and>
     genero d \<in> set [''Masculino'', ''Feminino''] \<and>
     tipo_sanguineo d \<in> set [''A+'', ''A-'', ''B+'', ''B-'', ''AB+'', ''AB-'', ''O+'', ''O-''] \<and>
     60 \<le> pressao_sistolica d \<and> pressao_sistolica d \<le> 300 \<and>
     30 \<le> pressao_diastolica d \<and> pressao_diastolica d \<le> 200 \<and>
     30 \<le> freq_cardiaca d \<and> freq_cardiaca d \<le> 200 \<and>
     20 \<le> peso d \<and> peso d \<le> 300 \<and>
     1.0 \<le> altura d \<and> altura d \<le> 2.5 \<and>
     50 \<le> colesterol d \<and> colesterol d \<le> 500 \<and>
     50 \<le> glicose d \<and> glicose d \<le> 400 \<and>
     0 \<le> num_medicamentos d \<and> num_medicamentos d \<le> 20 \<and>
     0 \<le> visitas_anuais d \<and> visitas_anuais d \<le> 50 \<and>
     validar_pressao_diastolica (pressao_diastolica d) (pressao_sistolica d)"

section \<open>The scorer of \<^verbatim>\<open>src/backend/main.py\<close>\<close>

text \<open>
  Python's \<^verbatim>\<open>round(x, n)\<close> on exact values: the nearest multiple of \<open>10\<close> to the \<open>-n\<close>, a
  tie going to the even neighbour.
\<close>

definition py_round :: "real \<Rightarrow> nat \<Rightarrow> real" where
  "py_round x n =
     (let y = x * 10 ^ n; f = \<lfloor>y\<rfloor>; d = y - of_int f
      in (if d < 1 / 2 then of_int f
          else if 1 / 2 < d then of_int (f + 1)
          else if even f then of_int f else of_int (f + 1)) / 10 ^ n)"

text \<open>
  \<^verbatim>\<open>calcular_bmi\<close>: the class is chosen on the unrounded quotient, the returned number
  is rounded to two places. Dividing by a zero height raises. The files
  \<^verbatim>\<open>api_medica_final.py\<close> and \<^verbatim>\<open>api_medica_windows.py\<close> hold the same function, statement
  for statement.
\<close>

definition calcular_bmi :: "real \<Rightarrow> real \<Rightarrow> py_error + (real \<times> string)" where
  "calcular_bmi peso' altura' =
     (if altura' ^ 2 = 0 then Inl ZeroDivisionError
      else
        let bmi = peso' / (altura' ^ 2);
            classificacao =
              (if bmi < 18.5 then ''Abaixo do peso''
               else if bmi < 25 then ''Peso normal''
               else if bmi < 30 then ''Sobrepeso''
               else if bmi < 35 then ''Obesidade Grau I''
               else if bmi < 40 then ''Obesidade Grau II''
               else ''Obesidade Grau III (Morbida)'')
        in Inr (py_round bmi 2, classificacao))"

text \<open>
  Each block of \<^verbatim>\<open>calcular_risco_avancado\<close> is an \<^verbatim>\<open>if/elif\<close> ladder of
  \<^verbatim>\<open>score += c\<close> statements; the function for a block gives the amount the block adds,
  \<open>0\<close> when no branch fires.
\<close>

definition pontos_idade :: "int \<Rightarrow> real" where
  "pontos_idade i =
     (if i \<ge> 75 then 0.35
      else if i \<ge> 65 then 0.25
      else if i \<ge> 55 then 0.20
      else if i \<ge> 45 then 0.15
      else if i \<ge> 35 then 0.10
      else 0)"

definition pontos_pressao :: "real \<Rightarrow> real \<Rightarrow> real" where
  "pontos_pressao s d =
     (if s \<ge> 180 \<or> d \<ge> 120 then 0.30
      else if s \<ge> 140 \<or> d \<ge> 90 then 0.25
      else if s \<ge> 130 \<or> d \<ge> 80 then 0.15
      else if s \<ge> 120 then 0.05
      else 0)"

definition pontos_bmi :: "real \<Rightarrow> real" where
  "pontos_bmi b =
     (if b \<ge> 40 then 0.25
      else if b \<ge> 35 then 0.20
      else if b \<ge> 30 then 0.15
      else if b \<ge> 25 then 0.08
      else 0)"

definition pontos_colesterol :: "real \<Rightarrow> real" where
  "pontos_colesterol c =
     (if c \<ge> 300 then 0.25
      else if c \<ge> 240 then 0.20
      else if c \<ge> 200 then 0.10
      else 0)"

definition pontos_glicose :: "real \<Rightarrow> real" where
  "pontos_glicose g =
     (if g \<ge> 200 then 0.25
      else if g \<ge> 126 then 0.20
      else if g \<ge> 100 then 0.10
      else 0)"

definition pontos_dor_peito :: "bool \<Rightarrow> real" where
  "pontos_dor_peito b = (if b then 0.20 else 0)"

definition pontos_falta_ar :: "bool \<Rightarrow> real" where
  "pontos_falta_ar b = (if b then 0.15 else 0)"

definition pontos_fadiga :: "bool \<Rightarrow> real" where
  "pontos_fadiga b = (if b then 0.10 else 0)"

definition pontos_tontura :: "bool \<Rightarrow> real" where
  "pontos_tontura b = (if b then 0.08 else 0)"

definition pontos_medicamentos :: "int \<Rightarrow> real" where
  "pontos_medicamentos n =
     (if n \<ge> 5 then 0.10
      else if n \<ge> 3 then 0.05
      else 0)"

definition pontos_visitas :: "int \<Rightarrow> real" where
  "pontos_visitas n =
     (if n \<ge> 6 then 0.08
      else if n \<ge> 3 then 0.04
      else 0)"

definition pontos_genero :: "string \<Rightarrow> real" where
  "pontos_genero g = (if g = ''Masculino'' then 0.05 else 0)"

text \<open>
  The value of \<^verbatim>\<open>score\<close> just before \<^verbatim>\<open>score = min(score, 1.0)\<close>: it starts at \<open>0\<close> and
  the blocks add to it in the order of the source.
\<close>

definition score_acumulado :: "PacienteInput \<Rightarrow> real \<Rightarrow> real" where
  "score_acumulado dados b =
     0 + pontos_idade (idade dados)
       + pontos_pressao (pressao_sistolica dados) (pressao_diastolica dados)
       + pontos_bmi b
       + pontos_colesterol (colesterol dados)
       + pontos_glicose (glicose dados)
       + pontos_dor_peito (dor_peito dados)
       + pontos_falta_ar (falta_ar dados)
       + pontos_fadiga (fadiga dados)
       + pontos_tontura (tontura dados)
       + pontos_medicamentos (num_medicamentos dados)
       + pontos_visitas (visitas_anuais dados)
       + pontos_genero (genero dados)"

text \<open>
  \<^verbatim>\<open>calcular_risco_avancado\<close> returns the tuple
  \<^verbatim>\<open>(categoria, probabilidade, score, confianca)\<close>. The first component of what
  \<^verbatim>\<open>calcular_bmi\<close> returns is bound to \<^verbatim>\<open>bmi\<close>, the second is dropped.
\<close>

type_synonym resultado = "string \<times> real \<times> real \<times> real"

definition calcular_risco_avancado :: "PacienteInput \<Rightarrow> py_error + resultado" where
  "calcular_risco_avancado dados =
     (case calcular_bmi (peso dados) (altura dados) of
        Inl e \<Rightarrow> Inl e
      | Inr (b, _) \<Rightarrow>
          let bmi = b;
              score = min (score_acumulado dados bmi) 1.0;
              (categoria, probabilidade, confianca) =
                (if score \<ge> 0.75 then (''Alto Risco'', 0.85 + (score - 0.75) * 0.6, 0.92)
                 else if score \<ge> 0.45 then (''Medio Risco'', 0.30 + (score - 0.45) * 1.83, 0.88)
                 else (''Baixo Risco'', score * 0.67, 0.85));
              probabilidade = max 0.01 (min 0.99 probabilidade)
          in Inr (categoria, probabilidade, score, confianca))"


section \<open>The three other copies of the scorer\<close>

text \<open>
  \<^verbatim>\<open>calcular_risco_avancado\<close> of \<^verbatim>\<open>src/api_medica_final.py\<close>, with the \<^verbatim>\<open>score += c\<close> statements written
  in place.
\<close>

definition calcular_risco_avancado_final :: "PacienteInput \<Rightarrow> py_error + resultado" where
  "calcular_risco_avancado_final dados =
     (case calcular_bmi (peso dados) (altura dados) of
        Inl e \<Rightarrow> Inl e
      | Inr (b, _) \<Rightarrow>
          let bmi = b;
              score = 0;
              score = score + (if idade dados \<ge> 75 then 0.35
                               else if idade dados \<ge> 65 then 0.25
                               else if idade dados \<ge> 55 then 0.20
                               else if idade dados \<ge> 45 then 0.15
                               else if idade dados \<ge> 35 then 0.10
                               else 0);
              score = score + (if pressao_sistolica dados \<ge> 180 \<or> pressao_diastolica dados \<ge> 120 then 0.30
                               else if pressao_sistolica dados \<ge> 140 \<or> pressao_diastolica dados \<ge> 90 then 0.25
                               else if pressao_sistolica dados \<ge> 130 \<or> pressao_diastolica dados \<ge> 80 then 0.15
                               else if pressao_sistolica dados \<ge> 120 then 0.05
                               else 0);
              score = score + (if bmi \<ge> 40 then 0.25
                               else if bmi \<ge> 35 then 0.20
                               else if bmi \<ge> 30 then 0.15
                               else if bmi \<ge> 25 then 0.08
                               else 0);
              score = score + (if colesterol dados \<ge> 300 then 0.25
                               else if colesterol dados \<ge> 240 then 0.20
                               else if colesterol dados \<ge> 200 then 0.10
                               else 0);
              score = score + (if glicose dados \<ge> 200 then 0.25
                               else if glicose dados \<ge> 126 then 0.20
                               else if glicose dados \<ge> 100 then 0.10
                               else 0);
              score = score + (if dor_peito dados then 0.20 else 0);
              score = score + (if falta_ar dados then 0.15 else 0);
              score = score + (if fadiga dados then 0.10 else 0);
              score = score + (if tontura dados then 0.08 else 0);
              score = score + (if num_medicamentos dados \<ge> 5 then 0.10
                               else if num_medicamentos dados \<ge> 3 then 0.05
                               else 0);
              score = score + (if visitas_anuais dados \<ge> 6 then 0.08
                               else if visitas_anuais dados \<ge> 3 then 0.04
                               else 0);
              score = score + (if genero dados = ''Masculino'' then 0.05 else 0);
              score = min score 1.0;
              (categoria, probabilidade, confianca) =
                (if score \<ge> 0.75 then (''Alto Risco'', 0.85 + (score - 0.75) * 0.6, 0.92)
                 else if score \<ge> 0.45 then (''Medio Risco'', 0.30 + (score - 0.45) * 1.83, 0.88)
                 else (''Baixo Risco'', score * 0.67, 0.85));
              probabilidade = max 0.01 (min 0.99 probabilidade)
          in Inr (categoria, probabilidade, score, confianca))"

text \<open>
  \<^verbatim>\<open>src/api_medica_corrigida.py\<close> writes its labels with accents: its \<^verbatim>\<open>calcular_bmi\<close>
  differs from the one above in the last class name, its scorer in the name of the
  middle category.
\<close>

definition calcular_bmi_corrigida :: "real \<Rightarrow> real \<Rightarrow> py_error + (real \<times> string)" where
  "calcular_bmi_corrigida peso' altura' =
     (if altura' ^ 2 = 0 then Inl ZeroDivisionError
      else
        let bmi = peso' / (altura' ^ 2);
            classificacao =
              (if bmi < 18.5 then ''Abaixo do peso''
               else if bmi < 25 then ''Peso normal''
               else if bmi < 30 then ''Sobrepeso''
               else if bmi < 35 then ''Obesidade Grau I''
               else if bmi < 40 then ''Obesidade Grau II''
               else ''Obesidade Grau III (M'' @ [CHR 0xC3, CHR 0xB3] @ ''rbida)'')
        in Inr (py_round bmi 2, classificacao))"

text \<open>
  \<^verbatim>\<open>calcular_risco_avancado\<close> of \<^verbatim>\<open>src/api_medica_corrigida.py\<close>, with the \<^verbatim>\<open>score += c\<close> statements written
  in place.
\<close>

definition calcular_risco_avancado_corrigida :: "PacienteInput \<Rightarrow> py_error + resultado" where
  "calcular_risco_avancado_corrigida dados =
     (case calcular_bmi_corrigida (peso dados) (altura dados) of
        Inl e \<Rightarrow> Inl e
      | Inr (b, _) \<Rightarrow>
          let bmi = b;
              score = 0;
              score = score + (if idade dados \<ge> 75 then 0.35
                               else if idade dados \<ge> 65 then 0.25
                               else if idade dados \<ge> 55 then 0.20
                               else if idade dados \<ge> 45 then 0.15
                               else if idade dados \<ge> 35 then 0.10
                               else 0);
              score = score + (if pressao_sistolica dados \<ge> 180 \<or> pressao_diastolica dados \<ge> 120 then 0.30
                               else if pressao_sistolica dados \<ge> 140 \<or> pressao_diastolica dados \<ge> 90 then 0.25
                               else if pressao_sistolica dados \<ge> 130 \<or> pressao_diastolica dados \<ge> 80 then 0.15
                               else if pressao_sistolica dados \<ge> 120 then 0.05
                               else 0);
              score = score + (if bmi \<ge> 40 then 0.25
                               else if bmi \<ge> 35 then 0.20
                               else if bmi \<ge> 30 then 0.15
                               else if bmi \<ge> 25 then 0.08
                               else 0);
              score = score + (if colesterol dados \<ge> 300 then 0.25
                               else if colesterol dados \<ge> 240 then 0.20
                               else if colesterol dados \<ge> 200 then 0.10
                               else 0);
              score = score + (if glicose dados \<ge> 200 then 0.25
                               else if glicose dados \<ge> 126 then 0.20
                               else if glicose dados \<ge> 100 then 0.10
                               else 0);
              score = score + (if dor_peito dados then 0.20 else 0);
              score = score + (if falta_ar dados then 0.15 else 0);
              score = score + (if fadiga dados then 0.10 else 0);
              score = score + (if tontura dados then 0.08 else 0);
              score = score + (if num_medicamentos dados \<ge> 5 then 0.10
                               else if num_medicamentos dados \<ge> 3 then 0.05
                               else 0);
              score = score + (if visitas_anuais dados \<ge> 6 then 0.08
                               else if visitas_anuais dados \<ge> 3 then 0.04
                               else 0);
              score = score + (if genero dados = ''Masculino'' then 0.05 else 0);
              score = min score 1.0;
              (categoria, probabilidade, confianca) =
                (if score \<ge> 0.75 then (''Alto Risco'', 0.85 + (score - 0.75) * 0.6, 0.92)
                 else if score \<ge> 0.45 then (''M'' @ [CHR 0xC3, CHR 0xA9] @ ''dio Risco'', 0.30 + (score - 0.45) * 1.83, 0.88)
                 else (''Baixo Risco'', score * 0.67, 0.85));
              probabilidade = max 0.01 (min 0.99 probabilidade)
          in Inr (categoria, probabilidade, score, confianca))"

text \<open>
  \<^verbatim>\<open>calcular_risco_avancado\<close> of \<^verbatim>\<open>src/api_medica_windows.py\<close>, with the \<^verbatim>\<open>score += c\<close> statements written
  in place.
\<close>

definition calcular_risco_avancado_windows :: "PacienteInput \<Rightarrow> py_error + resultado" where
  "calcular_risco_avancado_windows dados =
     (case calcular_bmi (peso dados) (altura dados) of
        Inl e \<Rightarrow> Inl e
      | Inr (b, _) \<Rightarrow>
          let bmi = b;
              score = 0;
              score = score + (if idade dados \<ge> 75 then 0.35
                               else if idade dados \<ge> 65 then 0.25
                               else if idade dados \<ge> 55 then 0.20
                               else if idade dados \<ge> 45 then 0.15
                               else if idade dados \<ge> 35 then 0.10
                               else 0);
              score = score + (if pressao_sistolica dados \<ge> 180 \<or> pressao_diastolica dados \<ge> 120 then 0.30
                               else if pressao_sistolica dados \<ge> 140 \<or> pressao_diastolica dados \<ge> 90 then 0.25
                               else if pressao_sistolica dados \<ge> 130 \<or> pressao_diastolica dados \<ge> 80 then 0.15
                               else if pressao_sistolica dados \<ge> 120 then 0.05
                               else 0);
              score = score + (if bmi \<ge> 40 then 0.25
                               else if bmi \<ge> 35 then 0.20
                               else if bmi \<ge> 30 then 0.15
                               else if bmi \<ge> 25 then 0.08
                               else 0);
              score = score + (if colesterol dados \<ge> 300 then 0.25
                               else if colesterol dados \<ge> 240 then 0.20
                               else if colesterol dados \<ge> 200 then 0.10
                               else 0);
              score = score + (if glicose dados \<ge> 200 then 0.25
                               else if glicose dados \<ge> 126 then 0.20
                               else if glicose dados \<ge> 100 then 0.10
                               else 0);
              score = score + (if dor_peito dados then 0.20 else 0);
              score = score + (if falta_ar dados then 0.15 else 0);
              score = score + (if fadiga dados then 0.10 else 0);
              score = score + (if tontura dados then 0.08 else 0);
              score = score + (if num_medicamentos dados \<ge> 5 then 0.10
                               else if num_medicamentos dados \<ge> 3 then 0.05
                               else 0);
              score = score + (if visitas_anuais dados \<ge> 6 then 0.08
                               else if visitas_anuais dados \<ge> 3 then 0.04
                               else 0);
              score = score + (if genero dados = ''Masculino'' then 0.05 else 0);
              score = min score 1.0;
              (categoria, probabilidade, confianca) =
                (if score \<ge> 0.75 then (''Alto Risco'', 0.85 + (score - 0.75) * 0.6, 0.92)
                 else if score \<ge> 0.45 then (''Medio Risco'', 0.30 + (score - 0.45) * 1.83, 0.88)
                 else (''Baixo Risco'', score * 0.67, 0.85));
              probabilidade = max 0.01 (min 0.99 probabilidade)
          in Inr (categoria, probabilidade, score, confianca))"

section \<open>The explanation list of \<^verbatim>\<open>src/backend/main.py\<close>\<close>

text \<open>
  \<^verbatim>\<open>gerar_explicacoes_shap\<close>. The f-strings format numbers with Python's own
  formatting, which is not part of this repository: \<open>str_int\<close> stands for \<^verbatim>\<open>{n}\<close> on an
  \<^verbatim>\<open>int\<close>, \<open>str_float\<close> for \<^verbatim>\<open>{x}\<close> on a \<^verbatim>\<open>float\<close> and \<open>fmt_1f\<close> for \<^verbatim>\<open>{x:.1f}\<close>. Each
  \<^verbatim>\<open>if c: lista.append(e)\<close> appends \<open>[e]\<close> when \<open>c\<close> holds and \<open>[]\<close> otherwise. The lookup
  \<^verbatim>\<open>resultado['categoria']\<close> raises when the key is missing.
\<close>

definition gerar_explicacoes_shap ::
  "(int \<Rightarrow> string) \<Rightarrow> (real \<Rightarrow> string) \<Rightarrow> (real \<Rightarrow> string) \<Rightarrow>
   PacienteInput \<Rightarrow> (string \<rightharpoonup> py_valor) \<Rightarrow> py_error + ExplicacoesResponse" where
  "gerar_explicacoes_shap str_int str_float fmt_1f dados resultado =
     (case calcular_bmi (peso dados) (altura dados) of
        Inl e \<Rightarrow> Inl e
      | Inr (b, _) \<Rightarrow>
          let bmi = b;
              fatores_risco = [];
              fatores_protecao = [];
              fatores_risco = fatores_risco @
                (if idade dados > 50
                 then [\<lparr>fator = ''Idade'',
                        valor = of_int (idade dados),
                        impacto = of_int (idade dados - 50) * 0.005,
                        interpretacao = ''Idade de '' @ str_int (idade dados)
                          @ '' anos aumenta o risco cardiovascular'',
                        categoria = ''increase_risk''\<rparr>]
                 else []);
              fatores_risco = fatores_risco @
                (if pressao_sistolica dados > 140
                 then [\<lparr>fator = ''Pressao Sistolica'',
                        valor = pressao_sistolica dados,
                        impacto = (pressao_sistolica dados - 140) * 0.003,
                        interpretacao = ''Hipertensao (PAS: '' @ str_float (pressao_sistolica dados)
                          @ '' mmHg) e fator de risco importante'',
                        categoria = ''increase_risk''\<rparr>]
                 else []);
              fatores_risco = fatores_risco @
                (if bmi > 30
                 then [\<lparr>fator = ''BMI'',
                        valor = bmi,
                        impacto = (bmi - 30) * 0.015,
                        interpretacao = ''Obesidade (BMI: '' @ fmt_1f bmi
                          @ '') aumenta significativamente o risco'',
                        categoria = ''increase_risk''\<rparr>]
                 else []);
              fatores_risco = fatores_risco @
                (if dor_peito dados
                 then [\<lparr>fator = ''Dor no Peito'',
                        valor = 1,
                        impacto = 0.20,
                        interpretacao = ''Dor toracica e sintoma cardinal de risco cardiovascular'',
                        categoria = ''increase_risk''\<rparr>]
                 else []);
              fatores_protecao = fatores_protecao @
                (if idade dados < 40
                 then [\<lparr>fator = ''Idade Jovem'',
                        valor = of_int (idade dados),
                        impacto = - 0.05,
                        interpretacao = ''Idade de '' @ str_int (idade dados)
                          @ '' anos e fator protetor'',
                        categoria = ''decrease_risk''\<rparr>]
                 else []);
              fatores_protecao = fatores_protecao @
                (if bmi \<ge> 18.5 \<and> bmi \<le> 24.9
                 then [\<lparr>fator = ''Peso Normal'',
                        valor = bmi,
                        impacto = - 0.03,
                        interpretacao = ''BMI normal ('' @ fmt_1f bmi @ '') e fator protetor'',
                        categoria = ''decrease_risk''\<rparr>]
                 else [])
          in (case resultado ''categoria'' of
               None \<Rightarrow> Inl KeyError
             | Some cat \<Rightarrow>
                 let interpretacao_geral =
                       (if cat = Texto ''Alto Risco'' then
                          ''Paciente apresenta multiplos fatores de risco que elevam significativamente a probabilidade de eventos cardiovasculares. Recomenda-se avaliacao cardiologica imediata e intervencoes terapeuticas intensivas.''
                        else if cat = Texto ''Medio Risco'' then
                          ''Paciente apresenta alguns fatores de risco que requerem monitoramento regular e intervencoes preventivas. Modificacoes no estilo de vida e acompanhamento medico sao essenciais.''
                        else
                          ''Paciente apresenta baixo risco cardiovascular atual, mas deve manter habitos preventivos e consultas regulares para monitoramento continuo.'');
                     recomendacoes = [];
                     recomendacoes = recomendacoes @
                       (if pressao_sistolica dados > 140
                        then [[CHR 0xF0, CHR 0x9F, CHR 0xA9, CHR 0xBA]
                                @ '' Controle rigoroso da hipertensao arterial com medicacao otimizada'']
                        else []);
                     recomendacoes = recomendacoes @
                       (if bmi > 30
                        then [[CHR 0xE2, CHR 0x9A, CHR 0x96, CHR 0xEF, CHR 0xB8, CHR 0x8F]
                                @ '' Programa estruturado de reducao de peso com nutricionalista'']
                        else []);
                     recomendacoes = recomendacoes @
                       (if dor_peito dados
                        then [[CHR 0xF0, CHR 0x9F, CHR 0x9A, CHR 0xA8]
                                @ '' Investigacao cardiologica imediata com ECG e marcadores cardiacos'']
                        else []);
                     recomendacoes = recomendacoes @
                       (if colesterol dados > 240
                        then [[CHR 0xF0, CHR 0x9F, CHR 0x92, CHR 0x8A]
                                @ '' Tratamento da dislipidemia com estatinas conforme protocolo'']
                        else []);
                     recomendacoes = recomendacoes @
                       (if glicose dados > 126
                        then [[CHR 0xF0, CHR 0x9F, CHR 0x8D, CHR 0x8E]
                                @ '' Controle glicemico rigoroso e avaliacao endocrinologica'']
                        else []);
                     recomendacoes =
                       (if recomendacoes = []
                        then [[CHR 0xE2, CHR 0x9C, CHR 0x85]
                                @ '' Manter habitos saudaveis e consultas preventivas regulares'']
                        else recomendacoes)
                 in Inr \<lparr>fatores_risco = fatores_risco,
                         fatores_protecao = fatores_protecao,
                         interpretacao_geral = interpretacao_geral,
                         recomendacoes = recomendacoes\<rparr>))"

text \<open>
  The statement \<^verbatim>\<open>fatores_risco.sort(key=lambda x: x.impacto, reverse=True)\<close> of
  \<^verbatim>\<open>gerar_explicacoes_detalhadas\<close> in \<^verbatim>\<open>src/api_medica_corrigida.py\<close> and
  \<^verbatim>\<open>src/api_medica_windows.py\<close>: Python's sort is stable, also when reversed, and so is
  insertion by the negated key.
\<close>

definition ordenar_por_impacto :: "ExplicacaoSHAP list \<Rightarrow> ExplicacaoSHAP list" where
  "ordenar_por_impacto xs = sort_key (\<lambda>x. - impacto x) xs"

section \<open>The dashboard of \<^verbatim>\<open>src/dashboard_medico.py\<close>\<close>

text \<open>
  What \<^verbatim>\<open>sidebar_entrada_dados\<close> stores for given widget values; the widget values are
  carried in a \<open>PacienteInput\<close> record, whose fields have the widgets' names. The
  quotient \<^verbatim>\<open>peso / (altura ** 2)\<close> is stored unrounded.
\<close>

definition sidebar_entrada_dados :: "PacienteInput \<Rightarrow> py_error + paciente_data" where
  "sidebar_entrada_dados w =
     (if altura w ^ 2 = 0 then Inl ZeroDivisionError
      else Inr \<lparr>paciente_data.idade = idade w,
                paciente_data.genero = genero w,
                paciente_data.tipo_sanguineo = tipo_sanguineo w,
                paciente_data.pressao_sistolica = pressao_sistolica w,
                paciente_data.pressao_diastolica = pressao_diastolica w,
                paciente_data.freq_cardiaca = freq_cardiaca w,
                paciente_data.bmi = peso w / (altura w ^ 2),
                paciente_data.colesterol = colesterol w,
                paciente_data.glicose = glicose w,
                paciente_data.num_medicamentos = num_medicamentos w,
                paciente_data.visitas_anuais = visitas_anuais w,
                paciente_data.dor_peito = (if dor_peito w then 1 else 0),
                paciente_data.falta_ar = (if falta_ar w then 1 else 0),
                paciente_data.fadiga = (if fadiga w then 1 else 0),
                paciente_data.tontura = (if tontura w then 1 else 0)\<rparr>)"

text \<open>\<^verbatim>\<open>calcular_risco_simulado\<close>.\<close>

definition calcular_risco_simulado :: "paciente_data \<Rightarrow> resultado_simulado" where
  "calcular_risco_simulado dados =
     (let score = 0;
          score = score + (if paciente_data.idade dados > 65 then 0.3
                           else if paciente_data.idade dados > 50 then 0.2
                           else if paciente_data.idade dados > 35 then 0.1
                           else 0);
          score = score + (if paciente_data.pressao_sistolica dados > 140
                              \<or> paciente_data.pressao_diastolica dados > 90 then 0.25
                           else if paciente_data.pressao_sistolica dados > 130
                              \<or> paciente_data.pressao_diastolica dados > 85 then 0.15
                           else 0);
          score = score + (if paciente_data.bmi dados > 30 then 0.2
                           else if paciente_data.bmi dados > 25 then 0.1
                           else 0);
          score = score + (if paciente_data.colesterol dados > 240 then 0.2
                           else if paciente_data.colesterol dados > 200 then 0.1
                           else 0);
          score = score + (if paciente_data.glicose dados > 126 then 0.15
                           else if paciente_data.glicose dados > 100 then 0.05
                           else 0);
          score = score + of_int (paciente_data.dor_peito dados) * 0.15;
          score = score + of_int (paciente_data.falta_ar dados) * 0.1;
          score = score + of_int (paciente_data.fadiga dados) * 0.08;
          score = score + of_int (paciente_data.tontura dados) * 0.05
      in if score \<ge> 0.7 then
           \<lparr>resultado_simulado.categoria = ''Alto Risco'',
            resultado_simulado.probabilidade = min 0.95 (0.7 + score * 0.3),
            resultado_simulado.score = score,
            resultado_simulado.cor = ''#dc3545''\<rparr>
         else if score \<ge> 0.4 then
           \<lparr>resultado_simulado.categoria = ''M'' @ [CHR 0xC3, CHR 0xA9] @ ''dio Risco'',
            resultado_simulado.probabilidade = 0.4 + score * 0.4,
            resultado_simulado.score = score,
            resultado_simulado.cor = ''#ffc107''\<rparr>
         else
           \<lparr>resultado_simulado.categoria = ''Baixo Risco'',
            resultado_simulado.probabilidade = max 0.05 (score * 0.5),
            resultado_simulado.score = score,
            resultado_simulado.cor = ''#28a745''\<rparr>)"

text \<open>
  \<^verbatim>\<open>gerar_explicacoes_shap_simuladas\<close>, the dashboard's list of explanations; it does not
  read its second argument. \<open>str_int\<close> and \<open>str_num\<close> stand for \<^verbatim>\<open>{x}\<close> in an f-string,
  \<open>fmt_2f\<close> for \<^verbatim>\<open>{x:.2f}\<close>. A symptom is stored as \<open>0\<close> or \<open>1\<close> and tested for truth. The
  last statement is \<^verbatim>\<open>explicacoes.sort(key=lambda x: x['impacto'], reverse=True)\<close>.
\<close>

definition gerar_explicacoes_shap_simuladas ::
  "(int \<Rightarrow> string) \<Rightarrow> (real \<Rightarrow> string) \<Rightarrow> (real \<Rightarrow> string) \<Rightarrow>
   paciente_data \<Rightarrow> resultado_simulado \<Rightarrow> explicacao_simulada list" where
  "gerar_explicacoes_shap_simuladas str_int str_num fmt_2f dados resultado =
     (let explicacoes = [];
          explicacoes = explicacoes @
            (if paciente_data.idade dados > 50
             then [\<lparr>explicacao_simulada.fator = ''Idade'',
                    explicacao_simulada.valor = Numero (of_int (paciente_data.idade dados)),
                    explicacao_simulada.impacto =
                      of_int (paciente_data.idade dados - 50) * 0.005,
                    explicacao_simulada.interpretacao =
                      ''Idade de '' @ str_int (paciente_data.idade dados)
                        @ '' anos aumenta o risco''\<rparr>]
             else []);
          explicacoes = explicacoes @
            (if paciente_data.pressao_sistolica dados > 120
             then [\<lparr>explicacao_simulada.fator =
                      ''Press'' @ [CHR 0xC3, CHR 0xA3] @ ''o Sist'' @ [CHR 0xC3, CHR 0xB3] @ ''lica'',
                    explicacao_simulada.valor = Numero (paciente_data.pressao_sistolica dados),
                    explicacao_simulada.impacto =
                      (paciente_data.pressao_sistolica dados - 120) * 0.002,
                    explicacao_simulada.interpretacao =
                      ''Press'' @ [CHR 0xC3, CHR 0xA3] @ ''o sist'' @ [CHR 0xC3, CHR 0xB3]
                        @ ''lica de '' @ str_num (paciente_data.pressao_sistolica dados)
                        @ '' mmHg''\<rparr>]
             else []);
          explicacoes = explicacoes @
            (if paciente_data.bmi dados > 25
             then [\<lparr>explicacao_simulada.fator = ''BMI'',
                    explicacao_simulada.valor = Numero (py_round (paciente_data.bmi dados) 2),
                    explicacao_simulada.impacto = (paciente_data.bmi dados - 25) * 0.01,
                    explicacao_simulada.interpretacao =
                      ''BMI de '' @ fmt_2f (paciente_data.bmi dados) @ '' indica sobrepeso''\<rparr>]
             else []);
          explicacoes = explicacoes @
            (if paciente_data.colesterol dados > 200
             then [\<lparr>explicacao_simulada.fator = ''Colesterol'',
                    explicacao_simulada.valor = Numero (paciente_data.colesterol dados),
                    explicacao_simulada.impacto = (paciente_data.colesterol dados - 200) * 0.001,
                    explicacao_simulada.interpretacao =
                      ''Colesterol de '' @ str_num (paciente_data.colesterol dados)
                        @ '' mg/dL elevado''\<rparr>]
             else []);
          explicacoes = explicacoes @
            (if paciente_data.dor_peito dados \<noteq> 0
             then [\<lparr>explicacao_simulada.fator = ''Dor no Peito'',
                    explicacao_simulada.valor = Texto ''Sim'',
                    explicacao_simulada.impacto = 0.15,
                    explicacao_simulada.interpretacao =
                      ''Sintoma preocupante para risco card'' @ [CHR 0xC3, CHR 0xAD] @ ''aco''\<rparr>]
             else [])
      in sort_key (\<lambda>x. - explicacao_simulada.impacto x) explicacoes)"

section \<open>The specification's classification\<close>

text \<open>
  Step 4 and step 5 of the specification's algorithm, in its words: from the score, the
  category, the probability (clamped to \<open>[0.01, 0.99]\<close>) and the confidence.
\<close>

definition spec_categoria :: "real \<Rightarrow> string" where
  "spec_categoria s =
     (if s \<ge> 0.75 then ''Alto Risco''
      else if s \<ge> 0.45 then ''Medio Risco''
      else ''Baixo Risco'')"

definition spec_probabilidade :: "real \<Rightarrow> real" where
  "spec_probabilidade s =
     max 0.01 (min 0.99
       (if s \<ge> 0.75 then 0.85 + (s - 0.75) * 0.6
        else if s \<ge> 0.45 then 0.30 + (s - 0.45) * 1.83
        else s * 0.67))"

definition spec_confianca :: "real \<Rightarrow> real" where
  "spec_confianca s =
     (if s \<ge> 0.75 then 0.92
      else if s \<ge> 0.45 then 0.88
      else 0.85)"


section \<open>Names for parts of the scorer's computation\<close>

text \<open>
  The spelling of a category name in \<^verbatim>\<open>src/api_medica_corrigida.py\<close>: the middle category
  carries an accent there, the other two names are the same.
\<close>

definition rotulo_corrigida :: "string \<Rightarrow> string" where
  "rotulo_corrigida c =
     (if c = ''Medio Risco'' then ''M'' @ [CHR 0xC3, CHR 0xA9] @ ''dio Risco'' else c)"


text \<open>The number that \<^verbatim>\<open>calcular_bmi\<close> hands to the scorer, and the score after the clamp.\<close>

definition bmi_arredondado :: "PacienteInput \<Rightarrow> real" where
  "bmi_arredondado d = py_round (peso d / (altura d ^ 2)) 2"

definition score_final :: "PacienteInput \<Rightarrow> real" where
  "score_final d = min (score_acumulado d (bmi_arredondado d)) 1.0"

text \<open>The value of \<^verbatim>\<open>score\<close> in \<^verbatim>\<open>calcular_risco_simulado\<close> when the category is chosen.\<close>

definition score_simulado :: "paciente_data \<Rightarrow> real" where
  "score_simulado dados =
     0 + (if paciente_data.idade dados > 65 then 0.3
          else if paciente_data.idade dados > 50 then 0.2
          else if paciente_data.idade dados > 35 then 0.1
          else 0)
       + (if paciente_data.pressao_sistolica dados > 140
            \<or> paciente_data.pressao_diastolica dados > 90 then 0.25
          else if paciente_data.pressao_sistolica dados > 130
            \<or> paciente_data.pressao_diastolica dados > 85 then 0.15
          else 0)
       + (if paciente_data.bmi dados > 30 then 0.2
          else if paciente_data.bmi dados > 25 then 0.1
          else 0)
       + (if paciente_data.colesterol dados > 240 then 0.2
          else if paciente_data.colesterol dados > 200 then 0.1
          else 0)
       + (if paciente_data.glicose dados > 126 then 0.15
          else if paciente_data.glicose dados > 100 then 0.05
          else 0)
       + of_int (paciente_data.dor_peito dados) * 0.15
       + of_int (paciente_data.falta_ar dados) * 0.1
       + of_int (paciente_data.fadiga dados) * 0.08
       + of_int (paciente_data.tontura dados) * 0.05"

section \<open>Patient records\<close>

text \<open>The three records of the endpoint \<^verbatim>\<open>/exemplo-paciente\<close>.\<close>

definition exemplo_baixo_risco :: PacienteInput where
  "exemplo_baixo_risco =
     \<lparr>idade = 35, genero = ''Feminino'', tipo_sanguineo = ''O+'',
      pressao_sistolica = 110, pressao_diastolica = 70, freq_cardiaca = 68,
      peso = 65, altura = 1.65, colesterol = 180, glicose = 90,
      num_medicamentos = 0, visitas_anuais = 1,
      dor_peito = False, falta_ar = False, fadiga = False, tontura = False\<rparr>"

definition exemplo_medio_risco :: PacienteInput where
  "exemplo_medio_risco =
     \<lparr>idade = 50, genero = ''Masculino'', tipo_sanguineo = ''A+'',
      pressao_sistolica = 135, pressao_diastolica = 85, freq_cardiaca = 75,
      peso = 85, altura = 1.75, colesterol = 220, glicose = 105,
      num_medicamentos = 2, visitas_anuais = 2,
      dor_peito = False, falta_ar = False, fadiga = True, tontura = False\<rparr>"

definition exemplo_alto_risco :: PacienteInput where
  "exemplo_alto_risco =
     \<lparr>idade = 65, genero = ''Masculino'', tipo_sanguineo = ''A+'',
      pressao_sistolica = 165, pressao_diastolica = 95, freq_cardiaca = 85,
      peso = 95, altura = 1.75, colesterol = 280, glicose = 140,
      num_medicamentos = 4, visitas_anuais = 6,
      dor_peito = True, falta_ar = True, fadiga = True, tontura = False\<rparr>"

text \<open>Records whose increments add up to \<open>0.44\<close>, \<open>0.45\<close> and \<open>0.75\<close>.\<close>

definition paciente_044 :: PacienteInput where
  "paciente_044 =
     \<lparr>idade = 55, genero = ''Feminino'', tipo_sanguineo = ''B+'',
      pressao_sistolica = 110, pressao_diastolica = 70, freq_cardiaca = 70,
      peso = 80, altura = 1.75, colesterol = 180, glicose = 90,
      num_medicamentos = 0, visitas_anuais = 6,
      dor_peito = False, falta_ar = False, fadiga = False, tontura = True\<rparr>"

definition paciente_045 :: PacienteInput where
  "paciente_045 =
     \<lparr>idade = 55, genero = ''Masculino'', tipo_sanguineo = ''O+'',
      pressao_sistolica = 110, pressao_diastolica = 70, freq_cardiaca = 70,
      peso = 65, altura = 1.65, colesterol = 200, glicose = 100,
      num_medicamentos = 0, visitas_anuais = 1,
      dor_peito = False, falta_ar = False, fadiga = False, tontura = False\<rparr>"

definition paciente_075 :: PacienteInput where
  "paciente_075 =
     \<lparr>idade = 75, genero = ''Feminino'', tipo_sanguineo = ''AB-'',
      pressao_sistolica = 180, pressao_diastolica = 100, freq_cardiaca = 80,
      peso = 60, altura = 1.60, colesterol = 200, glicose = 90,
      num_medicamentos = 1, visitas_anuais = 2,
      dor_peito = False, falta_ar = False, fadiga = False, tontura = False\<rparr>"

text \<open>
  A record whose quotient \<open>99.984 / 2\<^sup>2 = 24.996\<close> is below the first BMI band and is
  rounded onto it.
\<close>

definition paciente_limite_bmi :: PacienteInput where
  "paciente_limite_bmi =
     \<lparr>idade = 30, genero = ''Feminino'', tipo_sanguineo = ''A-'',
      pressao_sistolica = 110, pressao_diastolica = 70, freq_cardiaca = 70,
      peso = 99.984, altura = 2.0, colesterol = 180, glicose = 90,
      num_medicamentos = 0, visitas_anuais = 1,
      dor_peito = False, falta_ar = False, fadiga = False, tontura = False\<rparr>"

text \<open>A record with two explanation factors, the smaller one first in the source's order.\<close>

definition paciente_51_dor :: PacienteInput where
  "paciente_51_dor =
     \<lparr>idade = 51, genero = ''Feminino'', tipo_sanguineo = ''O-'',
      pressao_sistolica = 118, pressao_diastolica = 75, freq_cardiaca = 72,
      peso = 60, altura = 1.65, colesterol = 180, glicose = 90,
      num_medicamentos = 0, visitas_anuais = 1,
      dor_peito = True, falta_ar = False, fadiga = False, tontura = False\<rparr>"

text \<open>Widget values at which every block of the dashboard's scorer adds its largest amount.\<close>

definition formulario_maximo :: PacienteInput where
  "formulario_maximo =
     \<lparr>idade = 70, genero = ''Feminino'', tipo_sanguineo = ''O+'',
      pressao_sistolica = 150, pressao_diastolica = 95, freq_cardiaca = 90,
      peso = 100, altura = 1.70, colesterol = 250, glicose = 130,
      num_medicamentos = 0, visitas_anuais = 1,
      dor_peito = True, falta_ar = True, fadiga = True, tontura = True\<rparr>"

section \<open>Facts about the scorer\<close>

lemmas pontos_defs =
  pontos_idade_def pontos_pressao_def pontos_bmi_def pontos_colesterol_def pontos_glicose_def
  pontos_dor_peito_def pontos_falta_ar_def pontos_fadiga_def pontos_tontura_def
  pontos_medicamentos_def pontos_visitas_def pontos_genero_def

lemmas avaliar_defs =
  calcular_risco_avancado_def calcular_bmi_def py_round_def score_acumulado_def
  power2_eq_square Let_def pontos_defs

lemma paciente_valido_altura: "paciente_valido d \<Longrightarrow> altura d \<noteq> 0"
  by (simp add: paciente_valido_def)

lemma calcular_bmi_Inr:
  "a \<noteq> 0 \<Longrightarrow> \<exists>cl. calcular_bmi p a = Inr (py_round (p / a ^ 2) 2, cl)"
  by (simp add: calcular_bmi_def Let_def)

text \<open>
  With a height other than zero the scorer returns, and the tuple it returns is the
  specification's classification of the clamped sum.
\<close>

lemma calcular_risco_avancado_Inr:
  assumes "altura d \<noteq> 0"
  shows "calcular_risco_avancado d =
           Inr (spec_categoria (score_final d), spec_probabilidade (score_final d),
                score_final d, spec_confianca (score_final d))"
proof -
  from calcular_bmi_Inr [OF assms] obtain cl where
    "calcular_bmi (peso d) (altura d) = Inr (bmi_arredondado d, cl)"
    unfolding bmi_arredondado_def by blast
  then show ?thesis
    by (auto simp add: calcular_risco_avancado_def Let_def score_final_def
        spec_categoria_def spec_probabilidade_def spec_confianca_def)
qed

lemma pontos_nonneg:
  "0 \<le> pontos_idade i" "0 \<le> pontos_pressao s p" "0 \<le> pontos_bmi b"
  "0 \<le> pontos_colesterol c" "0 \<le> pontos_glicose g" "0 \<le> pontos_dor_peito b1"
  "0 \<le> pontos_falta_ar b2" "0 \<le> pontos_fadiga b3" "0 \<le> pontos_tontura b4"
  "0 \<le> pontos_medicamentos n" "0 \<le> pontos_visitas v" "0 \<le> pontos_genero ge"
  by (simp_all add: pontos_defs)

lemma score_acumulado_nonneg: "0 \<le> score_acumulado d b"
  unfolding score_acumulado_def
  by (intro add_nonneg_nonneg pontos_nonneg) simp

lemma score_final_bounds: "0 \<le> score_final d" "score_final d \<le> 1"
  by (simp_all add: score_final_def score_acumulado_nonneg)

lemma spec_probabilidade_bounds:
  "0.01 \<le> spec_probabilidade s" "spec_probabilidade s \<le> 0.99"
  by (simp_all add: spec_probabilidade_def)

lemma exemplos_validos:
  "paciente_valido exemplo_baixo_risco" "paciente_valido exemplo_medio_risco"
  "paciente_valido exemplo_alto_risco" "paciente_valido paciente_044"
  "paciente_valido paciente_045" "paciente_valido paciente_075"
  "paciente_valido paciente_limite_bmi" "paciente_valido paciente_51_dor"
  by (simp_all add: paciente_valido_def validar_pressao_diastolica_def
      exemplo_baixo_risco_def exemplo_medio_risco_def exemplo_alto_risco_def
      paciente_044_def paciente_045_def paciente_075_def paciente_limite_bmi_def
      paciente_51_dor_def)

lemma risco_exemplo_baixo:
  "calcular_risco_avancado exemplo_baixo_risco = Inr (''Baixo Risco'', 0.067, 0.10, 0.85)"
  by (simp add: exemplo_baixo_risco_def avaliar_defs)

lemma risco_exemplo_medio:
  "calcular_risco_avancado exemplo_medio_risco = Inr (''Medio Risco'', 0.8124, 0.73, 0.88)"
  by (simp add: exemplo_medio_risco_def avaliar_defs)

lemma risco_exemplo_alto:
  "calcular_risco_avancado exemplo_alto_risco = Inr (''Alto Risco'', 0.99, 1, 0.92)"
  by (simp add: exemplo_alto_risco_def avaliar_defs)

lemma risco_paciente_044:
  "calcular_risco_avancado paciente_044 = Inr (''Baixo Risco'', 0.2948, 0.44, 0.85)"
  by (simp add: paciente_044_def avaliar_defs)

lemma risco_paciente_045:
  "calcular_risco_avancado paciente_045 = Inr (''Medio Risco'', 0.30, 0.45, 0.88)"
  by (simp add: paciente_045_def avaliar_defs)



section \<open>Classification of the clamped score\<close>



section \<open>Ranges of the score and of the probability\<close>

text \<open>
  Claim C2. For every valid patient record the scorer returns a score in \<open>[0, 1]\<close> and a
  probability in \<open>[0.01, 0.99]\<close>.
\<close>

theorem score_e_probabilidade_limitados:
  assumes "paciente_valido d"
  shows "\<exists>c p s k. calcular_risco_avancado d = Inr (c, p, s, k)
           \<and> 0 \<le> s \<and> s \<le> 1 \<and> 0.01 \<le> p \<and> p \<le> 0.99"
proof -
  have "altura d \<noteq> 0"
    using assms by (rule paciente_valido_altura)
  from calcular_risco_avancado_Inr [OF this] show ?thesis
    using score_final_bounds [of d] spec_probabilidade_bounds [of "score_final d"]
    by blast
qed

theorem score_e_probabilidade_limitados_witness:
  "paciente_valido exemplo_alto_risco
   \<and> (\<exists>c p s k. calcular_risco_avancado exemplo_alto_risco = Inr (c, p, s, k)
         \<and> 0 \<le> s \<and> s \<le> 1 \<and> 0.01 \<le> p \<and> p \<le> 0.99)
   \<and> calcular_risco_avancado exemplo_alto_risco = Inr (''Alto Risco'', 0.99, 1, 0.92)"
  using score_e_probabilidade_limitados [OF exemplos_validos(3)]
    exemplos_validos(3) risco_exemplo_alto
  by blast

section \<open>The two examples of the specification\<close>

text \<open>
  Claim C3. The first example record (35 years, female, 110/70, 65 kg, 1.65 m,
  cholesterol 180, glucose 90, no symptom, no medication, one visit) gets the score
  \<open>0.10\<close>, which is the age band's increment alone, the category \<open>Low\<close> and the
  probability \<open>0.067\<close>. The second (65 years, male, 165/95, 95 kg, 1.75 m, cholesterol
  280, glucose 140, chest pain, shortness of breath, fatigue, 4 medications, 6 visits)
  accumulates more than \<open>0.75\<close>, and gets the category \<open>High\<close> and a probability of at
  least \<open>0.85\<close>. Blood type and heart rate are arbitrary, and so is dizziness in the
  second record.
\<close>

theorem exemplos_da_especificacao:
  "calcular_risco_avancado (exemplo_baixo_risco\<lparr>tipo_sanguineo := t, freq_cardiaca := f\<rparr>)
     = Inr (''Baixo Risco'', 0.067, 0.10, 0.85)
   \<and> score_acumulado (exemplo_baixo_risco\<lparr>tipo_sanguineo := t, freq_cardiaca := f\<rparr>)
        (bmi_arredondado exemplo_baixo_risco) = pontos_idade 35
   \<and> pontos_idade 35 = 0.10
   \<and> 0.10 * 0.67 = (0.067 :: real)
   \<and> 0.75 < score_acumulado
        (exemplo_alto_risco\<lparr>tipo_sanguineo := t, freq_cardiaca := f, tontura := b\<rparr>)
        (bmi_arredondado exemplo_alto_risco)
   \<and> calcular_risco_avancado
        (exemplo_alto_risco\<lparr>tipo_sanguineo := t, freq_cardiaca := f, tontura := b\<rparr>)
        = Inr (''Alto Risco'', 0.99, 1, 0.92)
   \<and> (0.85 :: real) \<le> 0.99"
  by (simp add: exemplo_baixo_risco_def exemplo_alto_risco_def bmi_arredondado_def
      avaliar_defs)

section \<open>Symptom flags\<close>








section \<open>Monotonicity\<close>

lemma pontos_mono:
  "i \<le> i' \<Longrightarrow> pontos_idade i \<le> pontos_idade i'"
  "s \<le> s' \<Longrightarrow> p \<le> p' \<Longrightarrow> pontos_pressao s p \<le> pontos_pressao s' p'"
  "x \<le> x' \<Longrightarrow> pontos_bmi x \<le> pontos_bmi x'"
  "x \<le> x' \<Longrightarrow> pontos_colesterol x \<le> pontos_colesterol x'"
  "x \<le> x' \<Longrightarrow> pontos_glicose x \<le> pontos_glicose x'"
  "n \<le> n' \<Longrightarrow> pontos_medicamentos n \<le> pontos_medicamentos n'"
  "n \<le> n' \<Longrightarrow> pontos_visitas n \<le> pontos_visitas n'"
  by (simp_all add: pontos_defs)

lemma pontos_sintoma_mono:
  "(b \<longrightarrow> b') \<Longrightarrow> pontos_dor_peito b \<le> pontos_dor_peito b'"
  "(b \<longrightarrow> b') \<Longrightarrow> pontos_falta_ar b \<le> pontos_falta_ar b'"
  "(b \<longrightarrow> b') \<Longrightarrow> pontos_fadiga b \<le> pontos_fadiga b'"
  "(b \<longrightarrow> b') \<Longrightarrow> pontos_tontura b \<le> pontos_tontura b'"
  by (simp_all add: pontos_defs)

text \<open>Rounding to \<open>n\<close> places never reverses an order.\<close>

lemma py_round_mono:
  assumes "x \<le> y"
  shows "py_round x n \<le> py_round y n"
proof -
  define r :: "real \<Rightarrow> int" where
    "r = (\<lambda>z. if z - of_int \<lfloor>z\<rfloor> < 1 / 2 then \<lfloor>z\<rfloor>
              else if 1 / 2 < z - of_int \<lfloor>z\<rfloor> then \<lfloor>z\<rfloor> + 1
              else if even \<lfloor>z\<rfloor> then \<lfloor>z\<rfloor> else \<lfloor>z\<rfloor> + 1)"
  define X where "X = x * 10 ^ n"
  define Y where "Y = y * 10 ^ n"
  have XY: "X \<le> Y"
    using assms by (simp add: X_def Y_def)
  have lo: "\<lfloor>z\<rfloor> \<le> r z" and hi: "r z \<le> \<lfloor>z\<rfloor> + 1" for z
    by (simp_all add: r_def)
  have "r X \<le> r Y"
  proof (cases "\<lfloor>X\<rfloor> = \<lfloor>Y\<rfloor>")
    case True
    with XY show ?thesis
      by (auto simp add: r_def)
  next
    case False
    moreover have "\<lfloor>X\<rfloor> \<le> \<lfloor>Y\<rfloor>"
      using XY by (rule floor_mono)
    ultimately have "\<lfloor>X\<rfloor> + 1 \<le> \<lfloor>Y\<rfloor>"
      by simp
    with hi [of X] lo [of Y] show ?thesis
      by linarith
  qed
  then have "(of_int (r X) :: real) / 10 ^ n \<le> of_int (r Y) / 10 ^ n"
    by (simp add: divide_right_mono)
  moreover have "py_round z n = of_int (r (z * 10 ^ n)) / 10 ^ n" for z
    by (simp add: py_round_def Let_def r_def)
  ultimately show ?thesis
    by (simp add: X_def Y_def)
qed

lemma bmi_arredondado_mono:
  assumes "peso d \<le> peso d'" and "altura d' = altura d"
  shows "bmi_arredondado d \<le> bmi_arredondado d'"
proof -
  have "peso d / (altura d ^ 2) \<le> peso d' / (altura d ^ 2)"
    using assms(1) by (simp add: divide_right_mono)
  then show ?thesis
    by (simp add: bmi_arredondado_def assms(2) py_round_mono)
qed

text \<open>
  A record that is at least as severe in every risk factor, with the same height and
  gender, accumulates at least as much.
\<close>

lemma score_final_mono:
  assumes "idade d \<le> idade d'"
    and "pressao_sistolica d \<le> pressao_sistolica d'"
    and "pressao_diastolica d \<le> pressao_diastolica d'"
    and "peso d \<le> peso d'" and "altura d' = altura d"
    and "colesterol d \<le> colesterol d'" and "glicose d \<le> glicose d'"
    and "dor_peito d \<longrightarrow> dor_peito d'" and "falta_ar d \<longrightarrow> falta_ar d'"
    and "fadiga d \<longrightarrow> fadiga d'" and "tontura d \<longrightarrow> tontura d'"
    and "num_medicamentos d \<le> num_medicamentos d'"
    and "visitas_anuais d \<le> visitas_anuais d'"
    and "genero d' = genero d"
  shows "score_final d \<le> score_final d'"
proof -
  have "score_acumulado d (bmi_arredondado d) \<le> score_acumulado d' (bmi_arredondado d')"
    unfolding score_acumulado_def
    using assms
    by (intro add_mono pontos_mono pontos_sintoma_mono bmi_arredondado_mono) simp_all
  then show ?thesis
    by (simp add: score_final_def min_le_iff_disj)
qed


text \<open>
  Claim C5. Of two valid records that differ only in age, or only in systolic pressure,
  diastolic pressure, weight, cholesterol, glucose, medication count or annual visits, or
  only by one symptom flag that is on in the second, the one with the larger value never
  gets the smaller score.
\<close>

theorem score_monotono:
  assumes "paciente_valido d" and "paciente_valido d'"
    and "(\<exists>v. d' = d\<lparr>idade := v\<rparr> \<and> idade d \<le> v)
       \<or> (\<exists>v. d' = d\<lparr>pressao_sistolica := v\<rparr> \<and> pressao_sistolica d \<le> v)
       \<or> (\<exists>v. d' = d\<lparr>pressao_diastolica := v\<rparr> \<and> pressao_diastolica d \<le> v)
       \<or> (\<exists>v. d' = d\<lparr>peso := v\<rparr> \<and> peso d \<le> v)
       \<or> (\<exists>v. d' = d\<lparr>colesterol := v\<rparr> \<and> colesterol d \<le> v)
       \<or> (\<exists>v. d' = d\<lparr>glicose := v\<rparr> \<and> glicose d \<le> v)
       \<or> (\<exists>v. d' = d\<lparr>num_medicamentos := v\<rparr> \<and> num_medicamentos d \<le> v)
       \<or> (\<exists>v. d' = d\<lparr>visitas_anuais := v\<rparr> \<and> visitas_anuais d \<le> v)
       \<or> d' = d\<lparr>dor_peito := True\<rparr> \<or> d' = d\<lparr>falta_ar := True\<rparr>
       \<or> d' = d\<lparr>fadiga := True\<rparr> \<or> d' = d\<lparr>tontura := True\<rparr>"
  shows "\<exists>c p s k c' p' s' k'.
           calcular_risco_avancado d = Inr (c, p, s, k)
         \<and> calcular_risco_avancado d' = Inr (c', p', s', k')
         \<and> s \<le> s'"
proof -
  have "score_final d \<le> score_final d'"
    using assms(3) by (elim disjE exE conjE) (rule score_final_mono; simp)+
  moreover have "altura d \<noteq> 0" and "altura d' \<noteq> 0"
    using assms(1,2) by (simp_all add: paciente_valido_altura)
  ultimately show ?thesis
    using calcular_risco_avancado_Inr [of d] calcular_risco_avancado_Inr [of d']
    by blast
qed

theorem score_monotono_witness:
  "paciente_valido exemplo_baixo_risco
   \<and> paciente_valido (exemplo_baixo_risco\<lparr>idade := 80\<rparr>)
   \<and> idade exemplo_baixo_risco \<le> 80
   \<and> calcular_risco_avancado exemplo_baixo_risco = Inr (''Baixo Risco'', 0.067, 0.10, 0.85)
   \<and> (\<exists>c' p' s' k'. calcular_risco_avancado (exemplo_baixo_risco\<lparr>idade := 80\<rparr>)
          = Inr (c', p', s', k') \<and> 0.10 \<le> s')"
proof -
  have v: "paciente_valido (exemplo_baixo_risco\<lparr>idade := 80\<rparr>)"
    by (simp add: exemplo_baixo_risco_def paciente_valido_def validar_pressao_diastolica_def)
  have i: "idade exemplo_baixo_risco \<le> 80"
    by (simp add: exemplo_baixo_risco_def)
  have "\<exists>c p s k c' p' s' k'.
           calcular_risco_avancado exemplo_baixo_risco = Inr (c, p, s, k)
         \<and> calcular_risco_avancado (exemplo_baixo_risco\<lparr>idade := 80\<rparr>) = Inr (c', p', s', k')
         \<and> s \<le> s'"
    using i by (intro score_monotono [OF exemplos_validos(1) v]) blast
  then show ?thesis
    using v i exemplos_validos(1) risco_exemplo_baixo by auto
qed

section \<open>The four copies of the scorer\<close>

lemma final_igual_main: "calcular_risco_avancado_final d = calcular_risco_avancado d"
  unfolding calcular_risco_avancado_final_def calcular_risco_avancado_def
    score_acumulado_def pontos_defs Let_def
  by (rule refl)

lemma windows_igual_main: "calcular_risco_avancado_windows d = calcular_risco_avancado d"
  unfolding calcular_risco_avancado_windows_def calcular_risco_avancado_def
    score_acumulado_def pontos_defs Let_def
  by (rule refl)

text \<open>The accented copy, with its accumulated sum folded into \<open>score_acumulado\<close>.\<close>

lemma corrigida_forma:
  "calcular_risco_avancado_corrigida dados =
     (case calcular_bmi_corrigida (peso dados) (altura dados) of
        Inl e \<Rightarrow> Inl e
      | Inr (b, _) \<Rightarrow>
          let s = min (score_acumulado dados b) 1.0;
              (c, p, k) =
                (if s \<ge> 0.75 then (''Alto Risco'', 0.85 + (s - 0.75) * 0.6, 0.92)
                 else if s \<ge> 0.45
                   then (''M'' @ [CHR 0xC3, CHR 0xA9] @ ''dio Risco'', 0.30 + (s - 0.45) * 1.83, 0.88)
                 else (''Baixo Risco'', s * 0.67, 0.85));
              p = max 0.01 (min 0.99 p)
          in Inr (c, p, s, k))"
  unfolding calcular_risco_avancado_corrigida_def score_acumulado_def pontos_defs Let_def
  by (rule refl)

lemma calcular_bmi_corrigida_Inr:
  "a \<noteq> 0 \<Longrightarrow> \<exists>cl. calcular_bmi_corrigida p a = Inr (py_round (p / a ^ 2) 2, cl)"
  by (simp add: calcular_bmi_corrigida_def Let_def)

lemma calcular_bmi_zero:
  "calcular_bmi p 0 = Inl ZeroDivisionError"
  "calcular_bmi_corrigida p 0 = Inl ZeroDivisionError"
  by (simp_all add: calcular_bmi_def calcular_bmi_corrigida_def)

lemma corrigida_Inr:
  assumes "altura d \<noteq> 0"
  shows "calcular_risco_avancado_corrigida d =
           Inr (rotulo_corrigida (spec_categoria (score_final d)),
                spec_probabilidade (score_final d), score_final d,
                spec_confianca (score_final d))"
proof -
  from calcular_bmi_corrigida_Inr [OF assms] obtain cl where
    "calcular_bmi_corrigida (peso d) (altura d) = Inr (bmi_arredondado d, cl)"
    unfolding bmi_arredondado_def by blast
  then show ?thesis
    by (auto simp add: corrigida_forma Let_def score_final_def rotulo_corrigida_def
        spec_categoria_def spec_probabilidade_def spec_confianca_def)
qed

lemma corrigida_e_main:
  "calcular_risco_avancado_corrigida d =
     map_sum id (\<lambda>(c, p, s, k). (rotulo_corrigida c, p, s, k)) (calcular_risco_avancado d)"
proof (cases "altura d = 0")
  case True
  then show ?thesis
    by (simp add: corrigida_forma calcular_risco_avancado_def calcular_bmi_zero)
next
  case False
  then show ?thesis
    by (simp add: corrigida_Inr calcular_risco_avancado_Inr)
qed

lemma risco_corrigida_exemplo_medio:
  "calcular_risco_avancado_corrigida exemplo_medio_risco
     = Inr (''M'' @ [CHR 0xC3, CHR 0xA9] @ ''dio Risco'', 0.8124, 0.73, 0.88)"
  by (simp add: corrigida_e_main risco_exemplo_medio rotulo_corrigida_def)

text \<open>
  Claim C6, as stated, fails on the category: on the second example record of
  \<^verbatim>\<open>/exemplo-paciente\<close>, which every copy accepts, \<^verbatim>\<open>src/backend/main.py\<close> returns the
  category \<^verbatim>\<open>Medio Risco\<close> and \<^verbatim>\<open>src/api_medica_corrigida.py\<close> returns it with an accent.
\<close>

theorem copias_counterexample:
  "paciente_valido exemplo_medio_risco
   \<and> calcular_risco_avancado exemplo_medio_risco
       = Inr (''Medio Risco'', 0.8124, 0.73, 0.88)
   \<and> calcular_risco_avancado_corrigida exemplo_medio_risco
       = Inr (''M'' @ [CHR 0xC3, CHR 0xA9] @ ''dio Risco'', 0.8124, 0.73, 0.88)
   \<and> calcular_risco_avancado_corrigida exemplo_medio_risco
       \<noteq> calcular_risco_avancado exemplo_medio_risco"
  by (simp add: exemplos_validos risco_exemplo_medio risco_corrigida_exemplo_medio)

text \<open>
  Claim C6, amended. On every input the copies of \<^verbatim>\<open>src/api_medica_final.py\<close> and
  \<^verbatim>\<open>src/api_medica_windows.py\<close> return what \<^verbatim>\<open>src/backend/main.py\<close> returns, and the copy
  of \<^verbatim>\<open>src/api_medica_corrigida.py\<close> returns the same probability, score and confidence
  and the same category in its own spelling, which differs for the middle category only;
  the four also raise on the same inputs.
\<close>

theorem copias_do_scorer:
  "calcular_risco_avancado_final d = calcular_risco_avancado d
   \<and> calcular_risco_avancado_windows d = calcular_risco_avancado d
   \<and> calcular_risco_avancado_corrigida d =
       map_sum id (\<lambda>(c, p, s, k). (rotulo_corrigida c, p, s, k)) (calcular_risco_avancado d)
   \<and> rotulo_corrigida ''Alto Risco'' = ''Alto Risco''
   \<and> rotulo_corrigida ''Baixo Risco'' = ''Baixo Risco''
   \<and> rotulo_corrigida ''Medio Risco'' = ''M'' @ [CHR 0xC3, CHR 0xA9] @ ''dio Risco''"
proof -
  have "rotulo_corrigida ''Alto Risco'' = ''Alto Risco''"
    and "rotulo_corrigida ''Baixo Risco'' = ''Baixo Risco''"
    and "rotulo_corrigida ''Medio Risco'' = ''M'' @ [CHR 0xC3, CHR 0xA9] @ ''dio Risco''"
    by (simp_all add: rotulo_corrigida_def)
  then show ?thesis
    using final_igual_main [of d] windows_igual_main [of d] corrigida_e_main [of d]
    by blast
qed

section \<open>The rounded body mass index\<close>





section \<open>Probability ranges of the categories\<close>

lemma pontos_centesimos:
  "100 * pontos_idade i \<in> \<int>" "100 * pontos_pressao s p \<in> \<int>" "100 * pontos_bmi x \<in> \<int>"
  "100 * pontos_colesterol x \<in> \<int>" "100 * pontos_glicose x \<in> \<int>"
  "100 * pontos_dor_peito b \<in> \<int>" "100 * pontos_falta_ar b \<in> \<int>"
  "100 * pontos_fadiga b \<in> \<int>" "100 * pontos_tontura b \<in> \<int>"
  "100 * pontos_medicamentos n \<in> \<int>" "100 * pontos_visitas n \<in> \<int>"
  "100 * pontos_genero g \<in> \<int>"
  by (simp_all add: pontos_defs)

text \<open>Every increment is a whole number of hundredths, and so is the score.\<close>

lemma score_acumulado_centesimos: "100 * score_acumulado d b \<in> \<int>"
  unfolding score_acumulado_def distrib_left
  by (intro Ints_add pontos_centesimos) simp

lemma score_final_centesimos: "100 * score_final d \<in> \<int>"
  using score_acumulado_centesimos [of d "bmi_arredondado d"]
  by (simp add: score_final_def min_def)

lemma centesimos_abaixo:
  assumes "100 * s \<in> \<int>" and "s < 0.45"
  shows "s \<le> (0.44 :: real)"
proof -
  from assms(1) obtain k :: int where k: "100 * s = of_int k"
    by (auto elim: Ints_cases)
  with assms(2) have "(of_int k :: real) < 45"
    by simp
  then have "k < 45"
    by linarith
  then have "k \<le> 44"
    by simp
  then have "(of_int k :: real) \<le> 44"
    by linarith
  with k show ?thesis
    by simp
qed

lemma spec_faixas:
  "s < 0.45 \<Longrightarrow> 100 * s \<in> \<int> \<Longrightarrow> spec_probabilidade s \<le> 0.2948"
  "0.45 \<le> s \<Longrightarrow> s < 0.75 \<Longrightarrow> 0.30 \<le> spec_probabilidade s \<and> spec_probabilidade s < 0.85"
  "0.75 \<le> s \<Longrightarrow> s \<le> 1 \<Longrightarrow> 0.85 \<le> spec_probabilidade s \<and> spec_probabilidade s \<le> 0.99"
proof -
  show "spec_probabilidade s \<le> 0.2948" if "s < 0.45" "100 * s \<in> \<int>"
  proof -
    have "s \<le> 0.44"
      using that by (intro centesimos_abaixo)
    then show ?thesis
      using that(1) by (simp add: spec_probabilidade_def)
  qed
  show "0.30 \<le> spec_probabilidade s \<and> spec_probabilidade s < 0.85" if "0.45 \<le> s" "s < 0.75"
    using that by (simp add: spec_probabilidade_def)
  show "0.85 \<le> spec_probabilidade s \<and> spec_probabilidade s \<le> 0.99" if "0.75 \<le> s" "s \<le> 1"
    using that spec_probabilidade_bounds(2) [of s] by (simp add: spec_probabilidade_def)
qed


text \<open>
  Claim C9. For every valid record the category can be read off the probability: the
  category \<open>Low\<close> comes with a score of at most \<open>0.44\<close> and a probability in
  \<open>[0.01, 0.2948]\<close>, below \<open>0.30\<close>; \<open>Medium\<close> with a probability in \<open>[0.30, 0.85)\<close>; \<open>High\<close>
  with a probability in \<open>[0.85, 0.99]\<close>; and one of the three is returned.
\<close>

theorem faixas_de_probabilidade:
  assumes "paciente_valido d"
  shows "\<exists>c p s k. calcular_risco_avancado d = Inr (c, p, s, k)
     \<and> (c = ''Baixo Risco'' \<or> c = ''Medio Risco'' \<or> c = ''Alto Risco'')
     \<and> (c = ''Baixo Risco'' \<longrightarrow> s \<le> 0.44 \<and> 0.01 \<le> p \<and> p \<le> 0.2948 \<and> p < 0.30)
     \<and> (c = ''Medio Risco'' \<longrightarrow> 0.30 \<le> p \<and> p < 0.85)
     \<and> (c = ''Alto Risco'' \<longrightarrow> 0.85 \<le> p \<and> p \<le> 0.99)
     \<and> c = (if p < 0.30 then ''Baixo Risco''
              else if p < 0.85 then ''Medio Risco'' else ''Alto Risco'')"
proof -
  define s where "s = score_final d"
  have a: "altura d \<noteq> 0"
    using assms by (rule paciente_valido_altura)
  have r: "calcular_risco_avancado d =
      Inr (spec_categoria s, spec_probabilidade s, s, spec_confianca s)"
    unfolding s_def using a by (rule calcular_risco_avancado_Inr)
  have z: "100 * s \<in> \<int>" and u: "s \<le> 1"
    unfolding s_def by (simp_all add: score_final_centesimos score_final_bounds)
  consider (baixo) "s < 0.45" | (medio) "0.45 \<le> s" "s < 0.75" | (alto) "0.75 \<le> s"
    by linarith
  then have "(spec_categoria s = ''Baixo Risco'' \<or> spec_categoria s = ''Medio Risco''
        \<or> spec_categoria s = ''Alto Risco'')
     \<and> (spec_categoria s = ''Baixo Risco'' \<longrightarrow>
          s \<le> 0.44 \<and> 0.01 \<le> spec_probabilidade s \<and> spec_probabilidade s \<le> 0.2948
          \<and> spec_probabilidade s < 0.30)
     \<and> (spec_categoria s = ''Medio Risco'' \<longrightarrow>
          0.30 \<le> spec_probabilidade s \<and> spec_probabilidade s < 0.85)
     \<and> (spec_categoria s = ''Alto Risco'' \<longrightarrow>
          0.85 \<le> spec_probabilidade s \<and> spec_probabilidade s \<le> 0.99)
     \<and> spec_categoria s = (if spec_probabilidade s < 0.30 then ''Baixo Risco''
              else if spec_probabilidade s < 0.85 then ''Medio Risco'' else ''Alto Risco'')"
  proof cases
    case baixo
    then have "spec_categoria s = ''Baixo Risco''"
      by (simp add: spec_categoria_def)
    moreover have "s \<le> 0.44"
      using z baixo by (rule centesimos_abaixo)
    moreover have "spec_probabilidade s \<le> 0.2948"
      using baixo z by (rule spec_faixas(1))
    ultimately show ?thesis
      using spec_probabilidade_bounds(1) [of s] by simp
  next
    case medio
    then have "spec_categoria s = ''Medio Risco''"
      by (simp add: spec_categoria_def)
    then show ?thesis
      using spec_faixas(2) [OF medio] by simp
  next
    case alto
    then have "spec_categoria s = ''Alto Risco''"
      by (simp add: spec_categoria_def)
    then show ?thesis
      using spec_faixas(3) [OF alto u] by simp
  qed
  with r show ?thesis
    by blast
qed

theorem faixas_de_probabilidade_witness:
  "paciente_valido paciente_044
   \<and> calcular_risco_avancado paciente_044 = Inr (''Baixo Risco'', 0.2948, 0.44, 0.85)
   \<and> (\<exists>c p s k. calcular_risco_avancado paciente_044 = Inr (c, p, s, k)
         \<and> c = ''Baixo Risco'' \<and> s \<le> 0.44 \<and> 0.01 \<le> p \<and> p \<le> 0.2948 \<and> p < 0.30)"
  using faixas_de_probabilidade [OF exemplos_validos(4)] exemplos_validos(4)
    risco_paciente_044
  by auto

section \<open>The dashboard's scorer\<close>

lemma simulado_paciente_045:
  "map_sum id calcular_risco_simulado (sidebar_entrada_dados paciente_045)
     = Inr \<lparr>resultado_simulado.categoria = ''Baixo Risco'',
            resultado_simulado.probabilidade = 0.1,
            resultado_simulado.score = 0.2,
            resultado_simulado.cor = ''#28a745''\<rparr>"
  by (simp add: sidebar_entrada_dados_def calcular_risco_simulado_def paciente_045_def
      Let_def power2_eq_square)

lemma simulado_formulario_maximo:
  "map_sum id calcular_risco_simulado (sidebar_entrada_dados formulario_maximo)
     = Inr \<lparr>resultado_simulado.categoria = ''Alto Risco'',
            resultado_simulado.probabilidade = 0.95,
            resultado_simulado.score = 1.48,
            resultado_simulado.cor = ''#dc3545''\<rparr>"
  by (simp add: sidebar_entrada_dados_def calcular_risco_simulado_def formulario_maximo_def
      Let_def power2_eq_square)

lemma risco_formulario_maximo:
  "calcular_risco_avancado formulario_maximo = Inr (''Alto Risco'', 0.99, 1, 0.92)"
  by (simp add: formulario_maximo_def avaliar_defs)

lemma simulado_forma:
  "calcular_risco_simulado dados =
     (if score_simulado dados \<ge> 0.7 then
        \<lparr>resultado_simulado.categoria = ''Alto Risco'',
         resultado_simulado.probabilidade = min 0.95 (0.7 + score_simulado dados * 0.3),
         resultado_simulado.score = score_simulado dados,
         resultado_simulado.cor = ''#dc3545''\<rparr>
      else if score_simulado dados \<ge> 0.4 then
        \<lparr>resultado_simulado.categoria = ''M'' @ [CHR 0xC3, CHR 0xA9] @ ''dio Risco'',
         resultado_simulado.probabilidade = 0.4 + score_simulado dados * 0.4,
         resultado_simulado.score = score_simulado dados,
         resultado_simulado.cor = ''#ffc107''\<rparr>
      else
        \<lparr>resultado_simulado.categoria = ''Baixo Risco'',
         resultado_simulado.probabilidade = max 0.05 (score_simulado dados * 0.5),
         resultado_simulado.score = score_simulado dados,
         resultado_simulado.cor = ''#28a745''\<rparr>)"
  unfolding calcular_risco_simulado_def score_simulado_def Let_def
  by (rule refl)

lemma score_simulado_sem_genero:
  "score_simulado (dados\<lparr>paciente_data.genero := g\<rparr>) = score_simulado dados"
  unfolding score_simulado_def by simp

lemma simulado_sem_genero:
  "calcular_risco_simulado (dados\<lparr>paciente_data.genero := g\<rparr>) = calcular_risco_simulado dados"
  by (simp only: simulado_forma score_simulado_sem_genero)

lemma simulado_score:
  "resultado_simulado.score (calcular_risco_simulado dados) = score_simulado dados"
  by (simp add: simulado_forma)

lemma simulado_limiares:
  "resultado_simulado.categoria (calcular_risco_simulado dados) =
     (if score_simulado dados \<ge> 0.7 then ''Alto Risco''
      else if score_simulado dados \<ge> 0.4 then ''M'' @ [CHR 0xC3, CHR 0xA9] @ ''dio Risco''
      else ''Baixo Risco'')"
  by (simp add: simulado_forma)

text \<open>
  Claim C10. The dashboard's \<^verbatim>\<open>calcular_risco_simulado\<close> is not the API's scorer. For the
  patient of 55 years, male, cholesterol 200, glucose 100 and every other factor below
  its thresholds, \<^verbatim>\<open>src/backend/main.py\<close> returns the score \<open>0.45\<close> and the middle
  category, the dashboard the score \<open>0.2\<close> and the low one. The dashboard cuts the
  categories at \<open>0.7\<close> and \<open>0.4\<close>, never reads the gender, and does not clamp: at the largest
  increments it returns the score \<open>1.48\<close> where the API returns \<open>1.0\<close>.
\<close>

theorem dashboard_nao_equivalente:
  "paciente_valido paciente_045
   \<and> calcular_risco_avancado paciente_045 = Inr (''Medio Risco'', 0.30, 0.45, 0.88)
   \<and> map_sum id calcular_risco_simulado (sidebar_entrada_dados paciente_045)
       = Inr \<lparr>resultado_simulado.categoria = ''Baixo Risco'',
              resultado_simulado.probabilidade = 0.1,
              resultado_simulado.score = 0.2,
              resultado_simulado.cor = ''#28a745''\<rparr>
   \<and> ''Baixo Risco'' \<noteq> ''Medio Risco''
   \<and> (\<forall>dados. resultado_simulado.score (calcular_risco_simulado dados)
         = score_simulado dados)
   \<and> (\<forall>dados. resultado_simulado.categoria (calcular_risco_simulado dados) =
         (if score_simulado dados \<ge> 0.7 then ''Alto Risco''
          else if score_simulado dados \<ge> 0.4 then ''M'' @ [CHR 0xC3, CHR 0xA9] @ ''dio Risco''
          else ''Baixo Risco''))
   \<and> (\<forall>dados g. calcular_risco_simulado (dados\<lparr>paciente_data.genero := g\<rparr>)
         = calcular_risco_simulado dados)
   \<and> pontos_genero ''Masculino'' = 0.05
   \<and> paciente_valido formulario_maximo
   \<and> calcular_risco_avancado formulario_maximo = Inr (''Alto Risco'', 0.99, 1, 0.92)
   \<and> map_sum id calcular_risco_simulado (sidebar_entrada_dados formulario_maximo)
       = Inr \<lparr>resultado_simulado.categoria = ''Alto Risco'',
              resultado_simulado.probabilidade = 0.95,
              resultado_simulado.score = 1.48,
              resultado_simulado.cor = ''#dc3545''\<rparr>
   \<and> (1 :: real) < 1.48"
proof -
  have v: "paciente_valido formulario_maximo"
    by (simp add: formulario_maximo_def paciente_valido_def validar_pressao_diastolica_def)
  have g: "pontos_genero ''Masculino'' = 0.05"
    by (simp add: pontos_genero_def)
  have n: "''Baixo Risco'' \<noteq> ''Medio Risco''" and l: "(1 :: real) < 1.48"
    by simp_all
  show ?thesis
    by (intro conjI allI)
      (rule exemplos_validos(5), rule risco_paciente_045, rule simulado_paciente_045,
       rule n, rule simulado_score, rule simulado_limiares, rule simulado_sem_genero, rule g, rule v,
       rule risco_formulario_maximo, rule simulado_formulario_maximo, rule l)
qed

section \<open>The explanation lists\<close>

lemma decrescente_sort_key:
  "sorted_wrt (\<ge>) (map f (sort_key (\<lambda>x. - f x) xs))" for f :: "'a \<Rightarrow> real"
proof -
  have "sorted (map (\<lambda>x. - f x) (sort_key (\<lambda>x. - f x) xs))"
    by (rule sorted_sort_key)
  then show ?thesis
    by (simp add: sorted_wrt_map)
qed

text \<open>
  The sort statement of \<^verbatim>\<open>gerar_explicacoes_detalhadas\<close> keeps the entries and puts them
  in descending order of \<^verbatim>\<open>impacto\<close>.
\<close>

lemma ordenar_por_impacto_decrescente:
  "sorted_wrt (\<ge>) (map impacto (ordenar_por_impacto xs))"
  "set (ordenar_por_impacto xs) = set xs"
  "length (ordenar_por_impacto xs) = length xs"
  by (simp_all add: ordenar_por_impacto_def decrescente_sort_key)

lemma nao_decrescente: "a < b \<Longrightarrow> \<not> sorted_wrt (\<ge>) [a, b :: real]"
  by simp

lemma ordenar_dois:
  assumes "map impacto xs = [a, b]" and "a < b"
  shows "map impacto (ordenar_por_impacto xs) = [b, a]"
proof -
  from assms(1) obtain x y where "xs = [x, y]" and "impacto x = a" and "impacto y = b"
    by (auto simp add: map_eq_Cons_conv)
  then show ?thesis
    using assms(2) by (simp add: ordenar_por_impacto_def)
qed

text \<open>The dashboard's list is in descending order of \<^verbatim>\<open>impacto\<close>, on every input.\<close>

lemma simuladas_decrescente:
  "sorted_wrt (\<ge>) (map explicacao_simulada.impacto
     (gerar_explicacoes_shap_simuladas str_int str_num fmt_2f dados resultado))"
  unfolding gerar_explicacoes_shap_simuladas_def Let_def
  by (rule decrescente_sort_key)


text \<open>
  What \<^verbatim>\<open>gerar_explicacoes_shap\<close> of \<^verbatim>\<open>src/backend/main.py\<close> returns for a height other
  than zero and a result dictionary with a category: one risk entry for each of its four
  conditions that holds, in the order of the source.
\<close>

lemma fatores_risco_main:
  assumes "altura d \<noteq> 0" and "resultado ''categoria'' = Some cat"
  shows "\<exists>r. gerar_explicacoes_shap str_int str_float fmt_1f d resultado = Inr r
     \<and> map fator (fatores_risco r) =
         (if idade d > 50 then [''Idade''] else [])
         @ (if pressao_sistolica d > 140 then [''Pressao Sistolica''] else [])
         @ (if bmi_arredondado d > 30 then [''BMI''] else [])
         @ (if dor_peito d then [''Dor no Peito''] else [])
     \<and> map impacto (fatores_risco r) =
         (if idade d > 50 then [of_int (idade d - 50) * 0.005] else [])
         @ (if pressao_sistolica d > 140 then [(pressao_sistolica d - 140) * 0.003] else [])
         @ (if bmi_arredondado d > 30 then [(bmi_arredondado d - 30) * 0.015] else [])
         @ (if dor_peito d then [0.20] else [])"
proof -
  from calcular_bmi_Inr [OF assms(1)] obtain cl where
    "calcular_bmi (peso d) (altura d) = Inr (bmi_arredondado d, cl)"
    unfolding bmi_arredondado_def by blast
  then show ?thesis
    using assms(2) by (simp add: gerar_explicacoes_shap_def Let_def)
qed

text \<open>
  Claim C7 on \<^verbatim>\<open>src/backend/main.py\<close>: for the valid record of 51 years with chest pain
  the list of risk factors is the age entry with \<^verbatim>\<open>impacto\<close> \<open>0.005\<close> followed by the chest pain
  entry with \<^verbatim>\<open>impacto\<close> \<open>0.20\<close>: one entry for each condition that holds, in the order of the
  source and not in descending order of \<^verbatim>\<open>impacto\<close>. Sorting it as the other copies do
  would put the chest pain entry first.
\<close>

theorem explicacoes_main_nao_ordenadas:
  "\<forall>str_int str_float fmt_1f. \<exists>r.
     gerar_explicacoes_shap str_int str_float fmt_1f paciente_51_dor
       [''categoria'' \<mapsto> Texto ''Baixo Risco'', ''probabilidade'' \<mapsto> Numero 0.2345,
        ''score'' \<mapsto> Numero 0.35] = Inr r
     \<and> map fator (fatores_risco r) = [''Idade'', ''Dor no Peito'']
     \<and> map impacto (fatores_risco r) = [0.005, 0.20]
     \<and> \<not> sorted_wrt (\<ge>) (map impacto (fatores_risco r))
     \<and> map impacto (ordenar_por_impacto (fatores_risco r)) = [0.20, 0.005]"
proof (intro allI)
  fix str_int :: "int \<Rightarrow> string" and str_float fmt_1f :: "real \<Rightarrow> string"
  let ?res = "[''categoria'' \<mapsto> Texto ''Baixo Risco'', ''probabilidade'' \<mapsto> Numero 0.2345,
        ''score'' \<mapsto> Numero 0.35]"
  have a: "altura paciente_51_dor \<noteq> 0"
    using exemplos_validos(8) by (rule paciente_valido_altura)
  have c: "?res ''categoria'' = Some (Texto ''Baixo Risco'')"
    by simp
  have b: "\<not> bmi_arredondado paciente_51_dor > 30"
    by (simp add: bmi_arredondado_def paciente_51_dor_def py_round_def Let_def power2_eq_square)
  have p: "idade paciente_51_dor = 51" "pressao_sistolica paciente_51_dor = 118"
    "dor_peito paciente_51_dor"
    by (simp_all add: paciente_51_dor_def)
  have "\<exists>r. gerar_explicacoes_shap str_int str_float fmt_1f paciente_51_dor ?res = Inr r
     \<and> map fator (fatores_risco r) = [''Idade'', ''Dor no Peito'']
     \<and> map impacto (fatores_risco r) = [0.005, 0.20]"
    using fatores_risco_main [where d = paciente_51_dor and resultado = ?res
      and cat = "Texto ''Baixo Risco''" and str_int = str_int and str_float = str_float
      and fmt_1f = fmt_1f, OF a c] b
    by (simp add: p)
  then show "\<exists>r. gerar_explicacoes_shap str_int str_float fmt_1f paciente_51_dor ?res = Inr r
     \<and> map fator (fatores_risco r) = [''Idade'', ''Dor no Peito'']
     \<and> map impacto (fatores_risco r) = [0.005, 0.20]
     \<and> \<not> sorted_wrt (\<ge>) (map impacto (fatores_risco r))
     \<and> map impacto (ordenar_por_impacto (fatores_risco r)) = [0.20, 0.005]"
  proof (elim exE conjE)
    fix r
    assume r: "gerar_explicacoes_shap str_int str_float fmt_1f paciente_51_dor ?res = Inr r"
      and f: "map fator (fatores_risco r) = [''Idade'', ''Dor no Peito'']"
      and i: "map impacto (fatores_risco r) = [0.005, 0.20]"
    have n: "\<not> sorted_wrt (\<ge>) (map impacto (fatores_risco r))"
      unfolding i by (rule nao_decrescente) simp
    have o: "map impacto (ordenar_por_impacto (fatores_risco r)) = [0.20, 0.005]"
      using i by (rule ordenar_dois) simp
    show ?thesis
      by (intro exI [of _ r] conjI) (rule r, rule f, rule i, rule n, rule o)
  qed
qed

end
